theory Spec2Isabelle
  imports Complex_Main "HOL-Library.Sublist"
begin

section \<open>Errors\<close>

text \<open>
  An endpoint of \<^verbatim>\<open>main.py\<close> ends in one of three ways other than returning:
  \<^item> it raises \<^verbatim>\<open>HTTPException(status_code=..., detail=...)\<close> itself;
  \<^item> FastAPI rejects the request body against its pydantic model before the endpoint
    runs; the rejection lists the offending fields, each with a reason;
  \<^item> a helper of \<^verbatim>\<open>database.py\<close> fails because no store connection exists.
\<close>

datatype error =
    HTTPException nat string
  | RequestValidationError "(string \<times> string) list"
  | DatabaseNotAvailable

text \<open>The error taxonomy of the specification and the way the interface table assigns
  the status codes to it.\<close>

datatype error_kind =
    ValidationError | DuplicateEmail | NotFound | InvalidCredentials | StoreUnavailable

fun kind_of :: "error \<Rightarrow> error_kind option" where
  "kind_of (HTTPException code detail) =
     (if code = 400 then Some DuplicateEmail
      else if code = 401 then Some InvalidCredentials
      else if code = 404 then Some NotFound
      else if code = 500 then Some StoreUnavailable
      else None)"
| "kind_of (RequestValidationError errs) = Some ValidationError"
| "kind_of DatabaseNotAvailable = Some StoreUnavailable"

section \<open>Schemas (schemas.py)\<close>

text \<open>
  A string is a list of HOL characters, read as code points below 256. A
  \<^verbatim>\<open>datetime\<close> is kept as its ISO text. \<^verbatim>\<open>Optional[T]\<close> is \<open>T option\<close>.
  The float \<^verbatim>\<open>rating\<close> is a real number: the code only compares it with the
  bounds 0 and 5 and never computes with it.
\<close>

type_synonym datetime = string

record User =
  name :: string
  email :: string
  password_hash :: string
  phone :: "string option"
  language :: "string option"
  city :: "string option"
  is_active :: bool
  role :: string

record Therapist =
  name :: string
  email :: string
  bio :: "string option"
  education :: "string option"
  specialties :: "string list"
  experience_years :: int
  languages :: "string list"
  gender :: "string option"
  city :: "string option"
  price_per_week_inr :: int
  rating :: real
  photo_url :: "string option"
  slots :: "string list"

record Review =
  user_name :: string
  rating :: int
  comment :: string
  city :: "string option"
  created_at :: "datetime option"

record BlogPost =
  title :: string
  slug :: string
  excerpt :: string
  content :: string
  tags :: "string list"
  cover_image :: "string option"
  published_at :: "datetime option"

record FAQ =
  question :: string
  answer :: string
  category :: "string option"

record Plan =
  name :: string
  price_inr :: int
  period :: string
  features :: "string list"

record MatchRequest =
  age :: "int option"
  concerns :: "string list"
  language :: "string option"
  gender_preference :: "string option"
  city :: "string option"

section \<open>Plans (main.py, plans)\<close>

definition plans :: "Plan list" where
  "plans =
     [\<lparr>Plan.name = ''Starter'', price_inr = 799, period = ''per week'',
        features = [''Unlimited chat'', ''1 live session'']\<rparr>,
      \<lparr>Plan.name = ''Standard'', price_inr = 1399, period = ''per week'',
        features = [''Unlimited chat'', ''2 live sessions'', ''Priority support'']\<rparr>,
      \<lparr>Plan.name = ''Premium'', price_inr = 2199, period = ''per week'',
        features = [''Unlimited chat'', ''4 live sessions'', ''Dedicated care manager'']\<rparr>]"

section \<open>Request bodies (main.py)\<close>

record SignupRequest =
  name :: string
  email :: string
  password :: string
  language :: "string option"

record LoginRequest =
  email :: string
  password :: string

section \<open>The store\<close>

text \<open>
  A stored document is its \<^verbatim>\<open>_id\<close> and the fields the schema gives it: the only
  writers of a collection are the creation endpoints, which store validated models, so
  every \<^verbatim>\<open>.get(key, default)\<close> of the code finds its key. An identifier is an
  opaque value the store assigns; \<^verbatim>\<open>str\<close> of it is the identifier itself here.
  A collection is the list of its documents in the store's native order.
\<close>

type_synonym ident = nat
type_synonym 'a doc = "ident \<times> 'a"

record store =
  user :: "User doc list"
  therapist :: "Therapist doc list"
  review :: "Review doc list"
  blogpost :: "BlogPost doc list"
  faq :: "FAQ doc list"
  next_id :: ident

text \<open>
  The global \<^verbatim>\<open>db\<close> of \<^verbatim>\<open>database.py\<close> is \<open>None\<close> when the store was not
  initialised and the store otherwise; every endpoint takes it as its first argument.
  The test \<^verbatim>\<open>if db\<close> is read as \<^verbatim>\<open>db is not None\<close>.
\<close>

definition truthy :: "string option \<Rightarrow> bool" where
  "truthy x = (case x of None \<Rightarrow> False | Some v \<Rightarrow> v \<noteq> [])"

text \<open>The driver's \<^verbatim>\<open>collection.find_one(filter)\<close>: the first matching document, or
  \<open>None\<close>.\<close>

definition find_one :: "('a \<Rightarrow> bool) \<Rightarrow> 'a doc list \<Rightarrow> 'a doc option" where
  "find_one flt coll = List.find (\<lambda>d. flt (snd d)) coll"

text \<open>The driver's \<^verbatim>\<open>collection.find(filter).limit(n)\<close> for a positive \<open>n\<close>.\<close>

definition find_limit :: "('a \<Rightarrow> bool) \<Rightarrow> nat \<Rightarrow> 'a doc list \<Rightarrow> 'a doc list" where
  "find_limit flt n coll = take n (filter (\<lambda>d. flt (snd d)) coll)"

subsection \<open>The gateway (database.py)\<close>

text \<open>
  Modelled from the spec: \<^verbatim>\<open>database.py\<close>, which defines \<^verbatim>\<open>create_document\<close> and
  \<^verbatim>\<open>get_documents\<close>, is not among the sources. The specification's gateway says:
  insert "writes it as a new document, returns the store-assigned unique identifier",
  "fails with StoreUnavailable if no store connection exists", and "all writes are
  immediately visible to subsequent reads"; find "returns up to limit documents matching
  filter, in store-native order". The collection name of the code is the collection's
  selector (and its update) here.
\<close>

definition create_document ::
  "store option \<Rightarrow> (store \<Rightarrow> 'a doc list) \<Rightarrow> ('a doc list \<Rightarrow> store \<Rightarrow> store) \<Rightarrow> 'a
     \<Rightarrow> error + (ident \<times> store)" where
  "create_document db coll put data =
     (case db of
        None \<Rightarrow> Inl DatabaseNotAvailable
      | Some s \<Rightarrow>
          Inr (next_id s, (put (coll s @ [(next_id s, data)]) s)\<lparr>next_id := Suc (next_id s)\<rparr>))"

definition get_documents ::
  "store option \<Rightarrow> (store \<Rightarrow> 'a doc list) \<Rightarrow> ('a \<Rightarrow> bool) \<Rightarrow> nat \<Rightarrow> error + 'a doc list" where
  "get_documents db coll flt limit =
     (case db of
        None \<Rightarrow> Inl DatabaseNotAvailable
      | Some s \<Rightarrow> Inr (find_limit flt limit (coll s)))"

section \<open>Signup and login (main.py)\<close>

text \<open>\<^verbatim>\<open>str.endswith\<close>.\<close>

definition endswith :: "string \<Rightarrow> string \<Rightarrow> bool" where
  "endswith s suf = (length suf \<le> length s \<and> drop (length s - length suf) s = suf)"

text \<open>The dictionary \<^verbatim>\<open>{"id": ..., "name": ..., "email": ...}\<close> both endpoints return.\<close>

record AuthResult =
  auth_id :: ident
  auth_name :: string
  auth_email :: string

text \<open>
  The request has passed FastAPI's validation of \<^verbatim>\<open>SignupRequest\<close>, so building the
  \<^verbatim>\<open>User\<close> from its fields succeeds; the fields the call leaves out take the
  schema's defaults. The endpoint returns its result and the store as it leaves it.
\<close>

definition signup :: "store option \<Rightarrow> SignupRequest \<Rightarrow> (error + AuthResult) \<times> store option" where
  "signup db req =
     (let existing =
            (case db of
               None \<Rightarrow> None
             | Some s \<Rightarrow> find_one (\<lambda>u. User.email u = SignupRequest.email req) (user s))
      in if existing \<noteq> None then (Inl (HTTPException 400 ''Email already registered''), db)
         else
           let u = \<lparr>User.name = SignupRequest.name req,
                    User.email = SignupRequest.email req,
                    password_hash = ''hash:'' @ SignupRequest.password req,
                    phone = None,
                    User.language = SignupRequest.language req,
                    User.city = None,
                    is_active = True,
                    role = ''user''\<rparr>
           in case create_document db user (\<lambda>c s. s\<lparr>user := c\<rparr>) u of
                Inl e \<Rightarrow> (Inl e, db)
              | Inr (user_id, s') \<Rightarrow>
                  (Inr \<lparr>auth_id = user_id, auth_name = User.name u, auth_email = User.email u\<rparr>,
                   Some s'))"

definition login :: "store option \<Rightarrow> LoginRequest \<Rightarrow> error + AuthResult" where
  "login db req =
     (case (case db of
              None \<Rightarrow> None
            | Some s \<Rightarrow> find_one (\<lambda>u. User.email u = LoginRequest.email req) (user s)) of
        None \<Rightarrow> Inl (HTTPException 404 ''User not found'')
      | Some u \<Rightarrow>
          if \<not> endswith (password_hash (snd u)) (LoginRequest.password req)
          then Inl (HTTPException 401 ''Invalid credentials'')
          else Inr \<lparr>auth_id = fst u, auth_name = User.name (snd u),
                    auth_email = User.email (snd u)\<rparr>)"

section \<open>Case-insensitive regular expressions of the store\<close>

text \<open>
  The directory and the matching endpoint hand the request's text to the store as
  \<^verbatim>\<open>{"$regex": text, "$options": "i"}\<close>: the store compiles the text as a
  Perl-compatible regular expression and searches the field for a match anywhere in it,
  ignoring letter case. The fragment modelled here is a pattern of printable ASCII
  characters none of which is a metacharacter other than the dot: every such character
  stands for itself up to letter case, and the dot stands for any one character that is
  not a line break. Since the model does not say which control characters count as line
  breaks, a pattern with a dot is only evaluated on a printable ASCII subject. A request
  outside the fragment has no result in the model (\<open>None\<close>).
\<close>

definition printable :: "char \<Rightarrow> bool" where
  "printable c = (32 \<le> (of_char c :: nat) \<and> (of_char c :: nat) \<le> 126)"

definition metachar :: "char \<Rightarrow> bool" where
  "metachar c = (c \<in> set ''.^$*+?()[]{}|'' \<or> c = CHR 0x5C)"

definition lower :: "char \<Rightarrow> char" where
  "lower c =
     (case map_of (zip ''ABCDEFGHIJKLMNOPQRSTUVWXYZ'' ''abcdefghijklmnopqrstuvwxyz'') c of
        None \<Rightarrow> c
      | Some d \<Rightarrow> d)"

datatype atom = Lit char | Dot

fun atom_matches :: "atom \<Rightarrow> char \<Rightarrow> bool" where
  "atom_matches (Lit c) d = (lower c = lower d)"
| "atom_matches Dot d = True"

fun match_here :: "atom list \<Rightarrow> string \<Rightarrow> bool" where
  "match_here [] s = True"
| "match_here (a # as) [] = False"
| "match_here (a # as) (d # ds) = (atom_matches a d \<and> match_here as ds)"

fun search :: "atom list \<Rightarrow> string \<Rightarrow> bool" where
  "search as [] = match_here as []"
| "search as (d # ds) = (match_here as (d # ds) \<or> search as ds)"

definition regex_search :: "string \<Rightarrow> string \<Rightarrow> bool" where
  "regex_search p s = search (map (\<lambda>c. if c = CHR ''.'' then Dot else Lit c) p) s"

definition pattern_supported :: "string \<Rightarrow> bool" where
  "pattern_supported p = list_all (\<lambda>c. printable c \<and> (c = CHR ''.'' \<or> \<not> metachar c)) p"

definition subject_supported :: "string \<Rightarrow> string \<Rightarrow> bool" where
  "subject_supported p s = (if CHR ''.'' \<in> set p then list_all printable s else True)"

text \<open>What the specification calls a case-insensitive substring match: the field's text
  contains the query text, ignoring letter case.\<close>

definition ci_substring :: "string \<Rightarrow> string \<Rightarrow> bool" where
  "ci_substring q s = sublist (map lower q) (map lower s)"

definition plain :: "string \<Rightarrow> bool" where
  "plain p = list_all (\<lambda>c. printable c \<and> \<not> metachar c) p"

section \<open>Therapist directory and matching (main.py)\<close>

text \<open>
  The query dictionary the two endpoints build, one entry per key they set:
  \<^verbatim>\<open>"languages"\<close>, \<^verbatim>\<open>"city"\<close>, \<^verbatim>\<open>"$or"\<close> and \<^verbatim>\<open>"specialties"\<close>. The store
  returns the documents that satisfy every entry. A regular expression on a list field
  holds when some element matches, and on a missing text (\<open>None\<close>) it does not hold;
  \<^verbatim>\<open>"$in"\<close> on a list field holds when some element is one of the listed values.
\<close>

datatype condition =
    Languages_regex string
  | City_regex string
  | Or_name_specialties_regex string
  | Specialties_in "string list"

fun holds :: "condition \<Rightarrow> Therapist \<Rightarrow> bool" where
  "holds (Languages_regex p) t = list_ex (regex_search p) (Therapist.languages t)"
| "holds (City_regex p) t =
     (case Therapist.city t of None \<Rightarrow> False | Some c \<Rightarrow> regex_search p c)"
| "holds (Or_name_specialties_regex p) t =
     (regex_search p (Therapist.name t) \<or> list_ex (regex_search p) (Therapist.specialties t))"
| "holds (Specialties_in cs) t = list_ex (\<lambda>x. x \<in> set cs) (Therapist.specialties t)"

fun condition_supported :: "condition \<Rightarrow> bool" where
  "condition_supported (Languages_regex p) = pattern_supported p"
| "condition_supported (City_regex p) = pattern_supported p"
| "condition_supported (Or_name_specialties_regex p) = pattern_supported p"
| "condition_supported (Specialties_in cs) = True"

fun document_supported :: "condition \<Rightarrow> Therapist \<Rightarrow> bool" where
  "document_supported (Languages_regex p) t = list_all (subject_supported p) (Therapist.languages t)"
| "document_supported (City_regex p) t =
     (case Therapist.city t of None \<Rightarrow> True | Some c \<Rightarrow> subject_supported p c)"
| "document_supported (Or_name_specialties_regex p) t =
     (subject_supported p (Therapist.name t) \<and>
      list_all (subject_supported p) (Therapist.specialties t))"
| "document_supported (Specialties_in cs) t = True"

definition query_supported :: "condition list \<Rightarrow> Therapist doc list \<Rightarrow> bool" where
  "query_supported query coll =
     (list_all condition_supported query \<and>
      list_all (\<lambda>d. list_all (\<lambda>c. document_supported c (snd d)) query) coll)"

definition satisfies :: "condition list \<Rightarrow> Therapist \<Rightarrow> bool" where
  "satisfies query t = list_all (\<lambda>c. holds c t) query"

text \<open>The loop \<^verbatim>\<open>it["id"] = str(it.pop("_id"))\<close>: the identifier moves from the key
  \<^verbatim>\<open>_id\<close> to the key \<^verbatim>\<open>id\<close>; the pair now reads (id, other fields).\<close>

definition pop_id :: "'a doc \<Rightarrow> ident \<times> 'a" where
  "pop_id it = (fst it, snd it)"

definition list_therapists ::
  "store option \<Rightarrow> string option \<Rightarrow> string option \<Rightarrow> string option
     \<Rightarrow> (error + (ident \<times> Therapist) list) option" where
  "list_therapists db language' city' q =
     (case db of
        None \<Rightarrow> Some (Inl (HTTPException 500 ''Database not available''))
      | Some s \<Rightarrow>
          let query =
                (if truthy language' then [Languages_regex (the language')] else []) @
                (if truthy city' then [City_regex (the city')] else []) @
                (if truthy q then [Or_name_specialties_regex (the q)] else [])
          in if query_supported query (therapist s)
             then Some (case get_documents db therapist (satisfies query) 50 of
                          Inl e \<Rightarrow> Inl e
                        | Inr items \<Rightarrow> Inr (map pop_id items))
             else None)"

record MatchItem =
  id_str :: ident
  name :: "string"
  languages :: "string list"
  specialties :: "string list"
  city :: "string option"
  rating :: real
  price_per_week_inr :: int
  photo_url :: "string option"

definition match_item :: "Therapist doc \<Rightarrow> MatchItem" where
  "match_item t =
     \<lparr>id_str = fst t,
      MatchItem.name = Therapist.name (snd t),
      MatchItem.languages = Therapist.languages (snd t),
      MatchItem.specialties = Therapist.specialties (snd t),
      MatchItem.city = Therapist.city (snd t),
      MatchItem.rating = Therapist.rating (snd t),
      MatchItem.price_per_week_inr = Therapist.price_per_week_inr (snd t),
      MatchItem.photo_url = Therapist.photo_url (snd t)\<rparr>"

definition match :: "store option \<Rightarrow> MatchRequest \<Rightarrow> (error + MatchItem list) option" where
  "match db req =
     (case db of
        None \<Rightarrow> Some (Inl (HTTPException 500 ''Database not available''))
      | Some s \<Rightarrow>
          let query =
                (if truthy (MatchRequest.language req)
                 then [Languages_regex (the (MatchRequest.language req))] else []) @
                (if truthy (MatchRequest.city req)
                 then [City_regex (the (MatchRequest.city req))] else []) @
                (if concerns req \<noteq> [] then [Specialties_in (concerns req)] else [])
          in if query_supported query (therapist s)
             then Some (Inr (map match_item (find_limit (satisfies query) 10 (therapist s))))
             else None)"

section \<open>Reviews, blog and FAQ listings (main.py)\<close>

definition reviews :: "store option \<Rightarrow> error + (ident \<times> Review) list" where
  "reviews db =
     (case (if db \<noteq> None then get_documents db review (\<lambda>r. True) 50 else Inr []) of
        Inl e \<Rightarrow> Inl e
      | Inr items \<Rightarrow> Inr (map pop_id items))"

text \<open>The filter \<^verbatim>\<open>{"tags": tag}\<close> on the list field \<^verbatim>\<open>tags\<close> holds when some
  element of the list equals \<^verbatim>\<open>tag\<close>.\<close>

definition blog_list :: "store option \<Rightarrow> string option \<Rightarrow> error + (ident \<times> BlogPost) list" where
  "blog_list db tag =
     (let query = (if truthy tag then (\<lambda>p. the tag \<in> set (tags p)) else (\<lambda>p. True))
      in case (if db \<noteq> None then get_documents db blogpost query 50 else Inr []) of
           Inl e \<Rightarrow> Inl e
         | Inr items \<Rightarrow> Inr (map pop_id items))"

definition blog_detail :: "store option \<Rightarrow> string \<Rightarrow> error + (ident \<times> BlogPost)" where
  "blog_detail db slug' =
     (case (case db of
              None \<Rightarrow> None
            | Some s \<Rightarrow> find_one (\<lambda>p. slug p = slug') (blogpost s)) of
        None \<Rightarrow> Inl (HTTPException 404 ''Not found'')
      | Some post \<Rightarrow> Inr (pop_id post))"

definition faq_list :: "store option \<Rightarrow> error + (ident \<times> FAQ) list" where
  "faq_list db =
     (case (if db \<noteq> None then get_documents db faq (\<lambda>r. True) 100 else Inr []) of
        Inl e \<Rightarrow> Inl e
      | Inr items \<Rightarrow> Inr (map pop_id items))"

section \<open>Creating a therapist (schemas.py, main.py)\<close>

text \<open>
  FastAPI parses the request body against the pydantic model \<^verbatim>\<open>Therapist\<close> before
  \<^verbatim>\<open>add_therapist\<close> runs. What the parser makes of one field of the body is \<open>Absent\<close>
  (the key is not there), \<open>Malformed\<close> (the value is not of the field's type, or not an
  e-mail address for an \<^verbatim>\<open>EmailStr\<close>) or \<open>Given v\<close>. The schema then decides: a field
  declared without a default is required, an absent field with a default takes it, and
  \<^verbatim>\<open>ge\<close> and \<^verbatim>\<open>le\<close> bound a given number. Every offending field is reported with
  its reason.
\<close>

datatype 'a raw = Absent | Malformed | Given 'a

record TherapistInput =
  name :: "string raw"
  email :: "string raw"
  bio :: "string option raw"
  education :: "string option raw"
  specialties :: "string list raw"
  experience_years :: "int raw"
  languages :: "string list raw"
  gender :: "string option raw"
  city :: "string option raw"
  price_per_week_inr :: "int raw"
  rating :: "real raw"
  photo_url :: "string option raw"
  slots :: "string list raw"

definition required :: "string \<Rightarrow> 'a raw \<Rightarrow> (string \<times> string) list" where
  "required field r =
     (case r of
        Absent \<Rightarrow> [(field, ''missing'')]
      | Malformed \<Rightarrow> [(field, ''invalid'')]
      | Given v \<Rightarrow> [])"

definition optional :: "string \<Rightarrow> 'a raw \<Rightarrow> (string \<times> string) list" where
  "optional field r =
     (case r of
        Absent \<Rightarrow> []
      | Malformed \<Rightarrow> [(field, ''invalid'')]
      | Given v \<Rightarrow> [])"

definition ge :: "string \<Rightarrow> 'a::linorder \<Rightarrow> 'a raw \<Rightarrow> (string \<times> string) list" where
  "ge field bound r =
     (case r of
        Given v \<Rightarrow> (if bound \<le> v then [] else [(field, ''greater_than_equal'')])
      | _ \<Rightarrow> [])"

definition le :: "string \<Rightarrow> 'a::linorder \<Rightarrow> 'a raw \<Rightarrow> (string \<times> string) list" where
  "le field bound r =
     (case r of
        Given v \<Rightarrow> (if v \<le> bound then [] else [(field, ''less_than_equal'')])
      | _ \<Rightarrow> [])"

definition or_default :: "'a \<Rightarrow> 'a raw \<Rightarrow> 'a" where
  "or_default d r = (case r of Given v \<Rightarrow> v | _ \<Rightarrow> d)"

definition validation_errors :: "TherapistInput \<Rightarrow> (string \<times> string) list" where
  "validation_errors inp =
     required ''name'' (TherapistInput.name inp) @
     required ''email'' (TherapistInput.email inp) @
     optional ''bio'' (TherapistInput.bio inp) @
     optional ''education'' (TherapistInput.education inp) @
     optional ''specialties'' (TherapistInput.specialties inp) @
     optional ''experience_years'' (TherapistInput.experience_years inp) @
     ge ''experience_years'' 0 (TherapistInput.experience_years inp) @
     optional ''languages'' (TherapistInput.languages inp) @
     optional ''gender'' (TherapistInput.gender inp) @
     optional ''city'' (TherapistInput.city inp) @
     optional ''price_per_week_inr'' (TherapistInput.price_per_week_inr inp) @
     ge ''price_per_week_inr'' 0 (TherapistInput.price_per_week_inr inp) @
     optional ''rating'' (TherapistInput.rating inp) @
     ge ''rating'' 0 (TherapistInput.rating inp) @
     le ''rating'' 5 (TherapistInput.rating inp) @
     optional ''photo_url'' (TherapistInput.photo_url inp) @
     optional ''slots'' (TherapistInput.slots inp)"

definition validate_Therapist :: "TherapistInput \<Rightarrow> error + Therapist" where
  "validate_Therapist inp =
     (case (validation_errors inp, TherapistInput.name inp, TherapistInput.email inp) of
        ([], Given n, Given e) \<Rightarrow>
          Inr \<lparr>Therapist.name = n,
               Therapist.email = e,
               Therapist.bio = or_default None (TherapistInput.bio inp),
               Therapist.education = or_default None (TherapistInput.education inp),
               Therapist.specialties = or_default [] (TherapistInput.specialties inp),
               Therapist.experience_years = or_default 0 (TherapistInput.experience_years inp),
               Therapist.languages = or_default [''English''] (TherapistInput.languages inp),
               Therapist.gender = or_default None (TherapistInput.gender inp),
               Therapist.city = or_default None (TherapistInput.city inp),
               Therapist.price_per_week_inr =
                 or_default 0 (TherapistInput.price_per_week_inr inp),
               Therapist.rating = or_default 4.8 (TherapistInput.rating inp),
               Therapist.photo_url = or_default None (TherapistInput.photo_url inp),
               Therapist.slots = or_default [] (TherapistInput.slots inp)\<rparr>
      | (errs, n, e) \<Rightarrow> Inl (RequestValidationError errs))"

definition add_therapist ::
  "store option \<Rightarrow> TherapistInput \<Rightarrow> (error + ident) \<times> store option" where
  "add_therapist db inp =
     (case validate_Therapist inp of
        Inl e \<Rightarrow> (Inl e, db)
      | Inr data \<Rightarrow>
          (case create_document db therapist (\<lambda>c s. s\<lparr>therapist := c\<rparr>) data of
             Inl e \<Rightarrow> (Inl e, db)
           | Inr (tid, s') \<Rightarrow> (Inr tid, Some s')))"

section \<open>The stores the service builds\<close>

text \<open>
  Users and therapists enter the store through \<^verbatim>\<open>signup\<close> and \<^verbatim>\<open>add_therapist\<close>
  only, one request after the other, starting from a store with neither. Every other
  endpoint reads, or writes a collection of its own (reviews, blog posts, FAQ entries,
  contact messages, sessions), and leaves the users and the therapists as they are.
\<close>

inductive reachable :: "store \<Rightarrow> bool" where
  initial: "user s = [] \<Longrightarrow> therapist s = [] \<Longrightarrow> reachable s"
| after_signup: "reachable s \<Longrightarrow> signup (Some s) req = (res, Some s') \<Longrightarrow> reachable s'"
| after_add_therapist:
    "reachable s \<Longrightarrow> add_therapist (Some s) inp = (res', Some s') \<Longrightarrow> reachable s'"
| after_other:
    "reachable s \<Longrightarrow> user s' = user s \<Longrightarrow> therapist s' = therapist s \<Longrightarrow> reachable s'"


section \<open>The filters as the specification words them\<close>

text \<open>
  The directory's filter in the specification's words: a language or city parameter
  selects the records whose field contains it as a case-insensitive substring (some
  element of the list of languages, the text of the city), and the free-text parameter
  selects the records whose name or some specialty contains it. A parameter that is
  absent or empty imposes nothing.
\<close>

definition directory_filter ::
  "string option \<Rightarrow> string option \<Rightarrow> string option \<Rightarrow> Therapist \<Rightarrow> bool" where
  "directory_filter language' city' q t =
     ((if truthy language'
       then list_ex (ci_substring (the language')) (Therapist.languages t) else True) \<and>
      (if truthy city'
       then (case Therapist.city t of None \<Rightarrow> False | Some c \<Rightarrow> ci_substring (the city') c)
       else True) \<and>
      (if truthy q
       then ci_substring (the q) (Therapist.name t) \<or>
            list_ex (ci_substring (the q)) (Therapist.specialties t)
       else True))"

text \<open>The matching filter in the specification's words: language substring, city
  substring and a specialty that is one of the requested concerns, all at once.\<close>

definition match_filter :: "MatchRequest \<Rightarrow> Therapist \<Rightarrow> bool" where
  "match_filter req t =
     ((if truthy (MatchRequest.language req)
       then list_ex (ci_substring (the (MatchRequest.language req))) (Therapist.languages t)
       else True) \<and>
      (if truthy (MatchRequest.city req)
       then (case Therapist.city t of
               None \<Rightarrow> False
             | Some c \<Rightarrow> ci_substring (the (MatchRequest.city req)) c)
       else True) \<and>
      (if concerns req \<noteq> []
       then set (Therapist.specialties t) \<inter> set (concerns req) \<noteq> {}
       else True))"

definition plain_param :: "string option \<Rightarrow> bool" where
  "plain_param x = (case x of None \<Rightarrow> True | Some p \<Rightarrow> plain p)"

definition stored_users :: "store option \<Rightarrow> User doc list" where
  "stored_users db = (case db of None \<Rightarrow> [] | Some s \<Rightarrow> user s)"




section \<open>Example data\<close>

definition ann :: User where
  "ann = \<lparr>User.name = ''Ann'', User.email = ''ann@example.in'',
           password_hash = ''hash:secret'', phone = None, User.language = Some ''en'',
           User.city = None, is_active = True, role = ''user''\<rparr>"

definition asha :: Therapist where
  "asha = \<lparr>Therapist.name = ''Asha Rao'', Therapist.email = ''asha@example.in'',
            Therapist.bio = None, Therapist.education = None,
            Therapist.specialties = [''anxiety'', ''depression''],
            Therapist.experience_years = 5,
            Therapist.languages = [''English'', ''Hindi''],
            Therapist.gender = None, Therapist.city = Some ''Bangalore'',
            Therapist.price_per_week_inr = 1200, Therapist.rating = 4.8,
            Therapist.photo_url = None, Therapist.slots = []\<rparr>"

definition vikram :: Therapist where
  "vikram = \<lparr>Therapist.name = ''Vikram Shah'', Therapist.email = ''vikram@example.in'',
              Therapist.bio = None, Therapist.education = None,
              Therapist.specialties = [''couples''],
              Therapist.experience_years = 9,
              Therapist.languages = [''English''],
              Therapist.gender = None, Therapist.city = Some ''Delhi'',
              Therapist.price_per_week_inr = 1500, Therapist.rating = 4.5,
              Therapist.photo_url = None, Therapist.slots = []\<rparr>"

definition coping :: BlogPost where
  "coping = \<lparr>title = ''Coping with anxiety'', slug = ''coping-with-anxiety'',
              excerpt = ''Small steps'', content = ''Breathe.'', tags = [''Anxiety''],
              cover_image = None, published_at = None\<rparr>"

definition demo_store :: store where
  "demo_store = \<lparr>user = [(0, ann)], therapist = [(1, asha), (2, vikram)], review = [],
                  blogpost = [(3, coping)], faq = [], next_id = 4\<rparr>"

text \<open>A store in which two users share an e-mail address: signup does not produce it
  request after request, and nothing in the store forbids it.\<close>

definition ann2 :: User where
  "ann2 = \<lparr>User.name = ''Ann Two'', User.email = ''ann@example.in'',
            password_hash = ''hash:other'', phone = None, User.language = Some ''en'',
            User.city = None, is_active = True, role = ''user''\<rparr>"

definition dup_store :: store where
  "dup_store = \<lparr>user = [(0, ann), (7, ann2)], therapist = [], review = [],
                 blogpost = [], faq = [], next_id = 8\<rparr>"

definition empty_store :: store where
  "empty_store = \<lparr>user = [], therapist = [], review = [], blogpost = [], faq = [],
                   next_id = 0\<rparr>"

definition crowded_store :: store where
  "crowded_store = \<lparr>user = [], therapist = map (\<lambda>i. (i, asha)) [0..<60], review = [],
                     blogpost = [], faq = [], next_id = 60\<rparr>"


section \<open>Theorems\<close>

subsection \<open>Looking a user up\<close>

lemma find_one_None_iff: "find_one flt coll = None \<longleftrightarrow> (\<forall>d\<in>set coll. \<not> flt (snd d))"
  by (auto simp: find_one_def find_None_iff)

lemma find_one_append:
  "find_one flt (xs @ ys) = (case find_one flt xs of None \<Rightarrow> find_one flt ys | Some d \<Rightarrow> Some d)"
  by (induction xs) (simp_all add: find_one_def)

lemma find_one_unique:
  "d \<in> set coll \<Longrightarrow> distinct (map (\<lambda>x. key (snd x)) coll) \<Longrightarrow>
   find_one (\<lambda>u. key u = key (snd d)) coll = Some d"
proof (induction coll)
  case Nil
  then show ?case by simp
next
  case (Cons x xs)
  show ?case
  proof (cases "x = d")
    case True
    then show ?thesis by (simp add: find_one_def)
  next
    case False
    with Cons.prems have mem: "d \<in> set xs" by simp
    from Cons.prems have "key (snd x) \<notin> (\<lambda>x. key (snd x)) ` set xs" by simp
    with mem have "key (snd x) \<noteq> key (snd d)" by force
    moreover from Cons.IH mem Cons.prems
    have "find_one (\<lambda>u. key u = key (snd d)) xs = Some d" by simp
    ultimately show ?thesis by (simp add: find_one_def)
  qed
qed

lemma endswith_iff: "endswith s suf \<longleftrightarrow> (\<exists>pre. s = pre @ suf)"
proof
  assume "endswith s suf"
  then have "s = take (length s - length suf) s @ suf"
    by (metis append_take_drop_id endswith_def)
  then show "\<exists>pre. s = pre @ suf" ..
next
  assume "\<exists>pre. s = pre @ suf"
  then show "endswith s suf" by (auto simp: endswith_def)
qed

lemma endswith_empty: "endswith s []"
  by (simp add: endswith_def)

lemma endswith_append: "endswith (pre @ s) s"
  by (simp add: endswith_def)

lemma find_one_first:
  assumes "coll = pre @ d # post"
    and "\<forall>x\<in>set pre. \<not> flt (snd x)"
    and "flt (snd d)"
  shows "find_one flt coll = Some d"
proof -
  from assms(2) have "find_one flt pre = None" by (simp add: find_one_None_iff)
  moreover from assms(3) have "find_one flt (d # post) = Some d" by (simp add: find_one_def)
  ultimately show ?thesis unfolding assms(1) by (simp add: find_one_append)
qed

lemma first_with_email:
  assumes "d \<in> set coll"
  shows "\<exists>pre d' post. coll = pre @ d' # post \<and>
     (\<forall>x\<in>set pre. User.email (snd x) \<noteq> User.email (snd d)) \<and>
     User.email (snd d') = User.email (snd d)"
proof -
  from assms have "\<exists>x\<in>set coll. User.email (snd x) = User.email (snd d)" by blast
  from split_list_first_prop [OF this] show ?thesis by blast
qed

lemma login_None: "login None req = Inl (HTTPException 404 ''User not found'')"
  by (simp add: login_def)

lemma login_Some_absent:
  "\<forall>d\<in>set (user s). User.email (snd d) \<noteq> LoginRequest.email req \<Longrightarrow>
   login (Some s) req = Inl (HTTPException 404 ''User not found'')"
proof -
  assume "\<forall>d\<in>set (user s). User.email (snd d) \<noteq> LoginRequest.email req"
  then have "find_one (\<lambda>u. User.email u = LoginRequest.email req) (user s) = None"
    by (simp add: find_one_None_iff)
  then show ?thesis by (simp add: login_def)
qed

lemma login_found:
  "find_one (\<lambda>u. User.email u = LoginRequest.email req) (user s) = Some d \<Longrightarrow>
   login (Some s) req =
     (if endswith (password_hash (snd d)) (LoginRequest.password req)
      then Inr \<lparr>auth_id = fst d, auth_name = User.name (snd d), auth_email = User.email (snd d)\<rparr>
      else Inl (HTTPException 401 ''Invalid credentials''))"
  by (simp add: login_def)

lemma login_Some_present:
  assumes "d \<in> set (user s)"
    and "distinct (map (\<lambda>x. User.email (snd x)) (user s))"
    and "User.email (snd d) = LoginRequest.email req"
  shows "login (Some s) req =
     (if endswith (password_hash (snd d)) (LoginRequest.password req)
      then Inr \<lparr>auth_id = fst d, auth_name = User.name (snd d), auth_email = User.email (snd d)\<rparr>
      else Inl (HTTPException 401 ''Invalid credentials''))"
proof -
  from find_one_unique [OF assms(1), where key = User.email, OF assms(2)] assms(3)
  have "find_one (\<lambda>u. User.email u = LoginRequest.email req) (user s) = Some d" by simp
  then show ?thesis by (rule login_found)
qed

lemma login_first:
  assumes "stored_users db = pre @ d # post"
    and "\<forall>x\<in>set pre. User.email (snd x) \<noteq> LoginRequest.email req"
    and "User.email (snd d) = LoginRequest.email req"
  shows "login db req =
     (if endswith (password_hash (snd d)) (LoginRequest.password req)
      then Inr \<lparr>auth_id = fst d, auth_name = User.name (snd d), auth_email = User.email (snd d)\<rparr>
      else Inl (HTTPException 401 ''Invalid credentials''))"
proof (cases db)
  case None
  with assms(1) show ?thesis by (simp add: stored_users_def)
next
  case (Some s)
  with assms(1) have "user s = pre @ d # post" by (simp add: stored_users_def)
  from find_one_first [OF this, where flt = "\<lambda>u. User.email u = LoginRequest.email req"]
    assms(2,3)
  have "find_one (\<lambda>u. User.email u = LoginRequest.email req) (user s) = Some d" by simp
  then show ?thesis unfolding Some by (rule login_found)
qed

lemma signup_None: "signup None req = (Inl DatabaseNotAvailable, None)"
  by (simp add: signup_def create_document_def)

lemma signup_duplicate:
  assumes "\<exists>d\<in>set (user s). User.email (snd d) = SignupRequest.email req"
  shows "signup (Some s) req = (Inl (HTTPException 400 ''Email already registered''), Some s)"
proof -
  from assms have "find_one (\<lambda>u. User.email u = SignupRequest.email req) (user s) \<noteq> None"
    by (simp add: find_one_None_iff)
  then show ?thesis by (simp add: signup_def)
qed

lemma signup_fresh:
  assumes "\<forall>d\<in>set (user s). User.email (snd d) \<noteq> SignupRequest.email req"
  shows "signup (Some s) req =
     (Inr \<lparr>auth_id = next_id s, auth_name = SignupRequest.name req,
            auth_email = SignupRequest.email req\<rparr>,
      Some (s\<lparr>user := user s @
                 [(next_id s,
                   \<lparr>User.name = SignupRequest.name req,
                    User.email = SignupRequest.email req,
                    password_hash = ''hash:'' @ SignupRequest.password req,
                    phone = None,
                    User.language = SignupRequest.language req,
                    User.city = None,
                    is_active = True,
                    role = ''user''\<rparr>)],
               next_id := Suc (next_id s)\<rparr>))"
proof -
  from assms have "find_one (\<lambda>u. User.email u = SignupRequest.email req) (user s) = None"
    by (simp add: find_one_None_iff)
  then show ?thesis by (simp add: signup_def create_document_def)
qed

lemma signup_success:
  assumes "signup db req = (Inr r, db')"
  obtains s where "db = Some s"
    and "\<forall>d\<in>set (user s). User.email (snd d) \<noteq> SignupRequest.email req"
proof (cases db)
  case None
  with assms show ?thesis by (simp add: signup_None)
next
  case (Some s)
  show ?thesis
  proof (cases "\<exists>d\<in>set (user s). User.email (snd d) = SignupRequest.email req")
    case True
    with assms Some show ?thesis by (simp add: signup_duplicate)
  next
    case False
    with Some that show ?thesis by blast
  qed
qed


subsection \<open>A pattern without metacharacters is a substring test\<close>

lemma plain_no_dot: "plain p \<Longrightarrow> CHR ''.'' \<notin> set p"
  by (auto simp: plain_def list_all_iff metachar_def)

lemma plain_pattern_supported: "plain p \<Longrightarrow> pattern_supported p"
  by (auto simp: plain_def pattern_supported_def list_all_iff)

lemma plain_subject_supported: "plain p \<Longrightarrow> subject_supported p s"
  by (simp add: subject_supported_def plain_no_dot)

lemma match_here_literal:
  "match_here (map Lit p) s = prefix (map lower p) (map lower s)"
proof (induction p arbitrary: s)
  case Nil
  then show ?case by simp
next
  case (Cons c p)
  then show ?case by (cases s) simp_all
qed

lemma search_literal:
  "search (map Lit p) s = sublist (map lower p) (map lower s)"
proof (induction s)
  case Nil
  then show ?case by (cases p) simp_all
next
  case (Cons d ds)
  then show ?case
    by (simp add: match_here_literal sublist_Cons_right del: match_here.simps)
qed

lemma regex_search_literal:
  assumes "CHR ''.'' \<notin> set p"
  shows "regex_search p s = ci_substring p s"
proof -
  from assms have eq: "map (\<lambda>c. if c = CHR ''.'' then Dot else Lit c) p = map Lit p"
    by (induction p) auto
  show ?thesis
    unfolding regex_search_def ci_substring_def eq by (rule search_literal)
qed

lemma regex_search_plain: "plain p \<Longrightarrow> regex_search p = ci_substring p"
  by (rule ext) (simp add: regex_search_literal plain_no_dot)

lemma plain_param_the: "plain_param x \<Longrightarrow> truthy x \<Longrightarrow> plain (the x)"
  by (cases x) (simp_all add: plain_param_def truthy_def)

lemma directory_query_supported:
  assumes "plain_param language'" and "plain_param city'" and "plain_param q"
  shows "query_supported
     ((if truthy language' then [Languages_regex (the language')] else []) @
      (if truthy city' then [City_regex (the city')] else []) @
      (if truthy q then [Or_name_specialties_regex (the q)] else [])) coll"
  using assms
  by (auto simp: query_supported_def list_all_iff plain_pattern_supported
      plain_subject_supported plain_param_the split: option.splits)

lemma directory_query_satisfies:
  assumes "plain_param language'" and "plain_param city'" and "plain_param q"
  shows "satisfies
     ((if truthy language' then [Languages_regex (the language')] else []) @
      (if truthy city' then [City_regex (the city')] else []) @
      (if truthy q then [Or_name_specialties_regex (the q)] else [])) t =
     directory_filter language' city' q t"
  using assms
  by (simp add: satisfies_def directory_filter_def regex_search_plain plain_param_the
      cong: option.case_cong)

lemma match_query_supported:
  assumes "plain_param (MatchRequest.language req)" and "plain_param (MatchRequest.city req)"
  shows "query_supported
     ((if truthy (MatchRequest.language req)
       then [Languages_regex (the (MatchRequest.language req))] else []) @
      (if truthy (MatchRequest.city req)
       then [City_regex (the (MatchRequest.city req))] else []) @
      (if concerns req \<noteq> [] then [Specialties_in (concerns req)] else [])) coll"
  using assms
  by (auto simp: query_supported_def list_all_iff plain_pattern_supported
      plain_subject_supported plain_param_the split: option.splits)

lemma specialties_in_iff:
  "list_ex (\<lambda>x. x \<in> set cs) xs \<longleftrightarrow> set xs \<inter> set cs \<noteq> {}"
  by (auto simp: list_ex_iff)

lemma match_query_satisfies:
  assumes "plain_param (MatchRequest.language req)" and "plain_param (MatchRequest.city req)"
  shows "satisfies
     ((if truthy (MatchRequest.language req)
       then [Languages_regex (the (MatchRequest.language req))] else []) @
      (if truthy (MatchRequest.city req)
       then [City_regex (the (MatchRequest.city req))] else []) @
      (if concerns req \<noteq> [] then [Specialties_in (concerns req)] else [])) t =
     match_filter req t"
  using assms
  by (simp add: satisfies_def match_filter_def regex_search_plain plain_param_the
      specialties_in_iff cong: option.case_cong)

lemma map_pop_id: "map pop_id items = items"
  by (induction items) (simp_all add: pop_id_def)

lemma list_therapists_plain:
  assumes "plain_param language'" and "plain_param city'" and "plain_param q"
  shows "list_therapists (Some s) language' city' q =
     Some (Inr (take 50 (filter (\<lambda>d. directory_filter language' city' q (snd d)) (therapist s))))"
proof -
  let ?query = "(if truthy language' then [Languages_regex (the language')] else []) @
      (if truthy city' then [City_regex (the city')] else []) @
      (if truthy q then [Or_name_specialties_regex (the q)] else [])"
  have sup: "query_supported ?query (therapist s)"
    by (rule directory_query_supported [OF assms])
  have sat: "satisfies ?query = directory_filter language' city' q"
    by (rule ext) (rule directory_query_satisfies [OF assms])
  have "list_therapists (Some s) language' city' q =
      Some (case get_documents (Some s) therapist (satisfies ?query) 50 of
              Inl e \<Rightarrow> Inl e
            | Inr items \<Rightarrow> Inr (map pop_id items))"
    unfolding list_therapists_def Let_def using sup by (simp only: option.case if_True)
  also have "\<dots> = Some (Inr (take 50
      (filter (\<lambda>d. directory_filter language' city' q (snd d)) (therapist s))))"
    by (simp only: sat get_documents_def find_limit_def map_pop_id option.case sum.case)
  finally show ?thesis .
qed

lemma match_plain:
  assumes "plain_param (MatchRequest.language req)" and "plain_param (MatchRequest.city req)"
  shows "match (Some s) req =
     Some (Inr (map match_item
       (take 10 (filter (\<lambda>d. match_filter req (snd d)) (therapist s)))))"
proof -
  let ?query = "(if truthy (MatchRequest.language req)
       then [Languages_regex (the (MatchRequest.language req))] else []) @
      (if truthy (MatchRequest.city req)
       then [City_regex (the (MatchRequest.city req))] else []) @
      (if concerns req \<noteq> [] then [Specialties_in (concerns req)] else [])"
  have sup: "query_supported ?query (therapist s)"
    by (rule match_query_supported [OF assms])
  have sat: "satisfies ?query = match_filter req"
    by (rule ext) (rule match_query_satisfies [OF assms])
  have "match (Some s) req =
      Some (Inr (map match_item (find_limit (satisfies ?query) 10 (therapist s))))"
    unfolding match_def Let_def using sup by (simp only: option.case if_True)
  also have "\<dots> = Some (Inr (map match_item
       (take 10 (filter (\<lambda>d. match_filter req (snd d)) (therapist s)))))"
    by (simp only: sat find_limit_def)
  finally show ?thesis .
qed

lemma blog_list_Some:
  assumes "tag \<noteq> []"
  shows "blog_list (Some s) (Some tag) =
     Inr (take 50 (filter (\<lambda>d. tag \<in> set (tags (snd d))) (blogpost s)))"
proof -
  from assms have t: "truthy (Some tag)" by (simp add: truthy_def)
  show ?thesis
    unfolding blog_list_def Let_def get_documents_def find_limit_def map_pop_id
    using t by simp
qed

lemma blog_list_None: "blog_list None tag = Inr []"
  by (simp add: blog_list_def)


subsection \<open>Validation and the stores the service builds\<close>











lemma add_therapist_step:
  assumes "add_therapist (Some s) inp = (res, Some s')"
  shows "user s' = user s \<and>
     (therapist s' = therapist s \<or>
      (\<exists>t. validate_Therapist inp = Inr t \<and> therapist s' = therapist s @ [(next_id s, t)]))"
  using assms
  by (auto simp: add_therapist_def create_document_def split: sum.splits)

lemma signup_step:
  assumes "signup (Some s) req = (res, Some s')"
  shows "therapist s' = therapist s \<and>
     (user s' = user s \<or>
      ((\<forall>d\<in>set (user s). User.email (snd d) \<noteq> SignupRequest.email req) \<and>
       (\<exists>u. User.email u = SignupRequest.email req \<and> user s' = user s @ [(next_id s, u)])))"
proof (cases "\<exists>d\<in>set (user s). User.email (snd d) = SignupRequest.email req")
  case True
  from assms signup_duplicate [OF True] show ?thesis by simp
next
  case False
  then have new: "\<forall>d\<in>set (user s). User.email (snd d) \<noteq> SignupRequest.email req" by blast
  from assms signup_fresh [OF new] have "user s' = user s @
                 [(next_id s,
                   \<lparr>User.name = SignupRequest.name req,
                    User.email = SignupRequest.email req,
                    password_hash = ''hash:'' @ SignupRequest.password req,
                    phone = None,
                    User.language = SignupRequest.language req,
                    User.city = None,
                    is_active = True,
                    role = ''user''\<rparr>)]" and th: "therapist s' = therapist s"
    by auto
  then have "\<exists>u. User.email u = SignupRequest.email req \<and> user s' = user s @ [(next_id s, u)]"
    by simp
  with new th show ?thesis by blast
qed


lemma reachable_distinct_emails:
  "reachable s \<Longrightarrow> distinct (map (\<lambda>d. User.email (snd d)) (user s))"
proof (induction rule: reachable.induct)
  case (initial s)
  then show ?case by simp
next
  case (after_signup s req res s')
  from signup_step [OF after_signup.hyps(2)] after_signup.IH show ?case by force
next
  case (after_add_therapist s inp res' s')
  from add_therapist_step [OF after_add_therapist.hyps(2)] after_add_therapist.IH
  show ?case by simp
next
  case (after_other s s')
  then show ?case by simp
qed


subsection \<open>The example data\<close>

lemma asha_bang: "directory_filter None (Some ''bang'') None asha"
  by (simp add: directory_filter_def truthy_def asha_def ci_substring_def lower_def
      sublist_code(3))

lemma vikram_bang: "\<not> directory_filter None (Some ''bang'') None vikram"
  by (simp add: directory_filter_def truthy_def vikram_def ci_substring_def lower_def
      sublist_code(3))

lemma plain_bang: "plain_param (Some ''bang'')"
  by (simp add: plain_param_def plain_def printable_def metachar_def)

lemma plain_examples:
  "plain_param (Some ''HIN'')" "plain_param (Some ''shah'')" "plain_param (Some ''Depress'')"
  by (simp_all add: plain_param_def plain_def printable_def metachar_def)

lemma directory_examples:
  "directory_filter (Some ''HIN'') None None asha"
  "\<not> directory_filter (Some ''HIN'') None None vikram"
  "\<not> directory_filter None None (Some ''shah'') asha"
  "directory_filter None None (Some ''shah'') vikram"
  "directory_filter None None (Some ''Depress'') asha"
  "\<not> directory_filter None None (Some ''Depress'') vikram"
  by (simp_all add: directory_filter_def truthy_def asha_def vikram_def ci_substring_def
      lower_def sublist_code(3))

lemma plain_eng: "plain_param (Some ''eng'')"
  by (simp add: plain_param_def plain_def printable_def metachar_def)

lemma demo_therapists: "therapist demo_store = [(1, asha), (2, vikram)]"
  by (simp add: demo_store_def)

lemma demo_posts: "blogpost demo_store = [(3, coping)]"
  by (simp add: demo_store_def)

lemma coping_tags: "tags coping = [''Anxiety'']"
  by (simp add: coping_def)

lemma ann_fields:
  "User.email ann = ''ann@example.in''" "User.name ann = ''Ann''"
  "password_hash ann = ''hash:secret''"
  "User.email ann2 = ''ann@example.in''" "User.name ann2 = ''Ann Two''"
  "password_hash ann2 = ''hash:other''"
  by (simp_all add: ann_def ann2_def)


subsection \<open>The service without a store\<close>

text \<open>
  Claim C1, as the code has it. With no store connection the data-dependent endpoints do
  not all end alike. The therapist listing and the matching endpoint test
  \<^verbatim>\<open>db is None\<close> first and raise the status 500 "Database not available", the
  specification's StoreUnavailable; signup finds no existing user and fails in the
  gateway's insert, StoreUnavailable as well, and leaves the absent store as it is. The
  reviews, blog and FAQ listings guard the read with \<^verbatim>\<open>if db else []\<close> and return an
  empty list of items. The blog detail and login guard the lookup with
  \<^verbatim>\<open>if db else None\<close> and fail with the status 404, the specification's NotFound.
\<close>

theorem without_store:
  "list_therapists None language' city' q =
     Some (Inl (HTTPException 500 ''Database not available'')) \<and>
   match None mreq = Some (Inl (HTTPException 500 ''Database not available'')) \<and>
   signup None sreq = (Inl DatabaseNotAvailable, None) \<and>
   kind_of (HTTPException 500 ''Database not available'') = Some StoreUnavailable \<and>
   kind_of DatabaseNotAvailable = Some StoreUnavailable \<and>
   reviews None = Inr [] \<and>
   blog_list None tag = Inr [] \<and>
   faq_list None = Inr [] \<and>
   blog_detail None slug' = Inl (HTTPException 404 ''Not found'') \<and>
   login None lreq = Inl (HTTPException 404 ''User not found'') \<and>
   kind_of (HTTPException 404 ''Not found'') = Some NotFound \<and>
   kind_of (HTTPException 404 ''User not found'') = Some NotFound"
proof -
  have a: "list_therapists None language' city' q =
      Some (Inl (HTTPException 500 ''Database not available''))"
    by (simp add: list_therapists_def)
  have b: "match None mreq = Some (Inl (HTTPException 500 ''Database not available''))"
    by (simp add: match_def)
  have c: "reviews None = Inr []" by (simp add: reviews_def)
  have d: "blog_list None tag = Inr []" by (simp add: blog_list_def)
  have e: "faq_list None = Inr []" by (simp add: faq_list_def)
  have f: "blog_detail None slug' = Inl (HTTPException 404 ''Not found'')"
    by (simp add: blog_detail_def)
  from a b c d e f signup_None login_None show ?thesis by simp
qed

text \<open>
  That every one of these endpoints fails with StoreUnavailable does not hold: with no
  store the reviews listing returns normally, with no items, and a login fails with
  NotFound, which is not StoreUnavailable.
\<close>

theorem without_store_counterexample:
  "reviews None = Inr [] \<and>
   (\<forall>e. reviews None \<noteq> Inl e) \<and>
   login None \<lparr>LoginRequest.email = ''ann@example.in'', LoginRequest.password = ''secret''\<rparr> =
     Inl (HTTPException 404 ''User not found'') \<and>
   kind_of (HTTPException 404 ''User not found'') \<noteq> Some StoreUnavailable"
  by (simp add: reviews_def login_def)


subsection \<open>Login\<close>

text \<open>
  Claim C2, as the code has it. Login takes the first stored user with the e-mail
  address of the request, in the store's order; nothing in the store keeps two users
  from sharing an address. If no stored user has the address, login fails with the
  status 404, NotFound; without a store there is no stored user. Otherwise the first
  stored user with the address decides: if its password field does not end with the
  password of the request, login fails with the status 401, InvalidCredentials, and if
  it does, login returns that user's identifier, name and e-mail address. In a store
  where no two users share an address, the user with the address is that first one, so
  there the outcome is the one the claim gives for every stored user with the address.
\<close>

theorem login_outcomes:
  "((\<forall>d\<in>set (stored_users db). User.email (snd d) \<noteq> LoginRequest.email req) \<longrightarrow>
      login db req = Inl (HTTPException 404 ''User not found'')) \<and>
   (\<forall>pre d post.
      stored_users db = pre @ d # post \<and>
      (\<forall>x\<in>set pre. User.email (snd x) \<noteq> LoginRequest.email req) \<and>
      User.email (snd d) = LoginRequest.email req \<longrightarrow>
      login db req =
        (if endswith (password_hash (snd d)) (LoginRequest.password req)
         then Inr \<lparr>auth_id = fst d, auth_name = User.name (snd d),
                    auth_email = User.email (snd d)\<rparr>
         else Inl (HTTPException 401 ''Invalid credentials''))) \<and>
   (distinct (map (\<lambda>d. User.email (snd d)) (stored_users db)) \<longrightarrow>
      (\<forall>d\<in>set (stored_users db).
         User.email (snd d) = LoginRequest.email req \<longrightarrow>
         login db req =
           (if endswith (password_hash (snd d)) (LoginRequest.password req)
            then Inr \<lparr>auth_id = fst d, auth_name = User.name (snd d),
                       auth_email = User.email (snd d)\<rparr>
            else Inl (HTTPException 401 ''Invalid credentials'')))) \<and>
   kind_of (HTTPException 404 ''User not found'') = Some NotFound \<and>
   kind_of (HTTPException 401 ''Invalid credentials'') = Some InvalidCredentials"
proof -
  have absent: "(\<forall>d\<in>set (stored_users db). User.email (snd d) \<noteq> LoginRequest.email req) \<longrightarrow>
      login db req = Inl (HTTPException 404 ''User not found'')"
  proof (cases db)
    case None
    then show ?thesis by (simp add: login_None)
  next
    case (Some s)
    then show ?thesis using login_Some_absent [of s req] by (simp add: stored_users_def)
  qed
  have first: "\<forall>pre d post.
      stored_users db = pre @ d # post \<and>
      (\<forall>x\<in>set pre. User.email (snd x) \<noteq> LoginRequest.email req) \<and>
      User.email (snd d) = LoginRequest.email req \<longrightarrow>
      login db req =
        (if endswith (password_hash (snd d)) (LoginRequest.password req)
         then Inr \<lparr>auth_id = fst d, auth_name = User.name (snd d),
                    auth_email = User.email (snd d)\<rparr>
         else Inl (HTTPException 401 ''Invalid credentials''))"
    using login_first by blast
  have unique: "distinct (map (\<lambda>d. User.email (snd d)) (stored_users db)) \<longrightarrow>
      (\<forall>d\<in>set (stored_users db).
         User.email (snd d) = LoginRequest.email req \<longrightarrow>
         login db req =
           (if endswith (password_hash (snd d)) (LoginRequest.password req)
            then Inr \<lparr>auth_id = fst d, auth_name = User.name (snd d),
                       auth_email = User.email (snd d)\<rparr>
            else Inl (HTTPException 401 ''Invalid credentials'')))"
  proof (cases db)
    case None
    then show ?thesis by (simp add: stored_users_def)
  next
    case (Some s)
    then show ?thesis using login_Some_present [of _ s req] by (simp add: stored_users_def)
  qed
  have kinds: "kind_of (HTTPException 404 ''User not found'') = Some NotFound \<and>
   kind_of (HTTPException 401 ''Invalid credentials'') = Some InvalidCredentials"
    by simp
  from absent first unique kinds show ?thesis by blast
qed

text \<open>
  In the store with two users under Ann's address, an unknown address is not found, the
  first user's password logs in as the first user, and the second user's password is
  refused; in the example store, where Ann is alone, a longer password is refused and
  her password logs in.
\<close>

theorem login_outcomes_witness:
  "login (Some dup_store)
     \<lparr>LoginRequest.email = ''bob@example.in'', LoginRequest.password = ''secret''\<rparr> =
     Inl (HTTPException 404 ''User not found'') \<and>
   login (Some dup_store)
     \<lparr>LoginRequest.email = ''ann@example.in'', LoginRequest.password = ''secret''\<rparr> =
     Inr \<lparr>auth_id = 0, auth_name = ''Ann'', auth_email = ''ann@example.in''\<rparr> \<and>
   login (Some dup_store)
     \<lparr>LoginRequest.email = ''ann@example.in'', LoginRequest.password = ''other''\<rparr> =
     Inl (HTTPException 401 ''Invalid credentials'') \<and>
   distinct (map (\<lambda>d. User.email (snd d)) (stored_users (Some demo_store))) \<and>
   login (Some demo_store)
     \<lparr>LoginRequest.email = ''ann@example.in'', LoginRequest.password = ''secrets''\<rparr> =
     Inl (HTTPException 401 ''Invalid credentials'') \<and>
   login (Some demo_store)
     \<lparr>LoginRequest.email = ''ann@example.in'', LoginRequest.password = ''secret''\<rparr> =
     Inr \<lparr>auth_id = 0, auth_name = ''Ann'', auth_email = ''ann@example.in''\<rparr>"
proof -
  let ?bob = "\<lparr>LoginRequest.email = ''bob@example.in'', LoginRequest.password = ''secret''\<rparr>"
  let ?ok = "\<lparr>LoginRequest.email = ''ann@example.in'', LoginRequest.password = ''secret''\<rparr>"
  let ?other = "\<lparr>LoginRequest.email = ''ann@example.in'', LoginRequest.password = ''other''\<rparr>"
  let ?long = "\<lparr>LoginRequest.email = ''ann@example.in'', LoginRequest.password = ''secrets''\<rparr>"
  have no_bob: "\<forall>d\<in>set (stored_users (Some dup_store)).
      User.email (snd d) \<noteq> LoginRequest.email ?bob"
    by (simp add: stored_users_def dup_store_def ann_fields)
  from login_outcomes [of "Some dup_store" ?bob, THEN conjunct1, THEN mp, OF no_bob]
  have r1: "login (Some dup_store) ?bob = Inl (HTTPException 404 ''User not found'')" .
  have first_ok: "stored_users (Some dup_store) = [] @ (0, ann) # [(7, ann2)] \<and>
      (\<forall>x\<in>set []. User.email (snd x) \<noteq> LoginRequest.email ?ok) \<and>
      User.email (snd (0::nat, ann)) = LoginRequest.email ?ok"
    by (simp add: stored_users_def dup_store_def ann_fields)
  from login_outcomes [of "Some dup_store" ?ok, THEN conjunct2, THEN conjunct1,
      THEN spec, THEN spec, THEN spec, THEN mp, OF first_ok]
  have r2: "login (Some dup_store) ?ok =
      Inr \<lparr>auth_id = 0, auth_name = ''Ann'', auth_email = ''ann@example.in''\<rparr>"
    by (simp add: ann_fields endswith_def)
  have first_other: "stored_users (Some dup_store) = [] @ (0, ann) # [(7, ann2)] \<and>
      (\<forall>x\<in>set []. User.email (snd x) \<noteq> LoginRequest.email ?other) \<and>
      User.email (snd (0::nat, ann)) = LoginRequest.email ?other"
    by (simp add: stored_users_def dup_store_def ann_fields)
  from login_outcomes [of "Some dup_store" ?other, THEN conjunct2, THEN conjunct1,
      THEN spec, THEN spec, THEN spec, THEN mp, OF first_other]
  have r3: "login (Some dup_store) ?other = Inl (HTTPException 401 ''Invalid credentials'')"
    by (simp add: ann_fields endswith_def)
  have d: "distinct (map (\<lambda>d. User.email (snd d)) (stored_users (Some demo_store)))"
    by (simp add: stored_users_def demo_store_def)
  have m: "(0, ann) \<in> set (stored_users (Some demo_store))"
    by (simp add: stored_users_def demo_store_def)
  have e_long: "User.email (snd (0::nat, ann)) = LoginRequest.email ?long"
    and e_ok: "User.email (snd (0::nat, ann)) = LoginRequest.email ?ok"
    by (simp_all add: ann_fields)
  from login_outcomes [of "Some demo_store" ?long, THEN conjunct2, THEN conjunct2,
      THEN conjunct1, THEN mp, OF d, THEN bspec, OF m, THEN mp, OF e_long]
  have r4: "login (Some demo_store) ?long = Inl (HTTPException 401 ''Invalid credentials'')"
    by (simp add: ann_fields endswith_def)
  from login_outcomes [of "Some demo_store" ?ok, THEN conjunct2, THEN conjunct2,
      THEN conjunct1, THEN mp, OF d, THEN bspec, OF m, THEN mp, OF e_ok]
  have r5: "login (Some demo_store) ?ok =
      Inr \<lparr>auth_id = 0, auth_name = ''Ann'', auth_email = ''ann@example.in''\<rparr>"
    by (simp add: ann_fields endswith_def)
  from r1 r2 r3 d r4 r5 show ?thesis by (intro conjI)
qed

text \<open>
  With two users under one address the claim does not hold for the second: its password
  field does not end with "secret", yet the login with "secret" succeeds, as the first
  user; and its field ends with "other", yet the login with "other" is refused.
\<close>

theorem login_outcomes_counterexample:
  "(7, ann2) \<in> set (stored_users (Some dup_store)) \<and>
   User.email (snd (7, ann2)) = ''ann@example.in'' \<and>
   \<not> endswith (password_hash (snd (7, ann2))) ''secret'' \<and>
   login (Some dup_store)
     \<lparr>LoginRequest.email = ''ann@example.in'', LoginRequest.password = ''secret''\<rparr> =
     Inr \<lparr>auth_id = 0, auth_name = ''Ann'', auth_email = ''ann@example.in''\<rparr> \<and>
   endswith (password_hash (snd (7, ann2))) ''other'' \<and>
   login (Some dup_store)
     \<lparr>LoginRequest.email = ''ann@example.in'', LoginRequest.password = ''other''\<rparr> =
     Inl (HTTPException 401 ''Invalid credentials'')"
  by (simp add: stored_users_def dup_store_def login_def find_one_def ann_fields endswith_def)


subsection \<open>Signup\<close>

text \<open>
  Claim C3. On a store that holds a user with the request's e-mail address, signup fails
  with the status 400, DuplicateEmail, and the store is unchanged. On a store that holds
  none, signup appends one user document with the request's name and address and the
  password field \<open>hash:\<close> followed by the password, and returns the document's
  identifier with the name and the address. Hence, whatever store a signup succeeded on,
  a second signup with the same address on the store it left fails with DuplicateEmail,
  whatever its other fields are, and leaves that store unchanged.
\<close>

theorem signup_outcomes:
  "((\<exists>d\<in>set (user s). User.email (snd d) = SignupRequest.email req) \<longrightarrow>
      signup (Some s) req = (Inl (HTTPException 400 ''Email already registered''), Some s)) \<and>
   ((\<forall>d\<in>set (user s). User.email (snd d) \<noteq> SignupRequest.email req) \<longrightarrow>
      (\<exists>s' u. signup (Some s) req =
                 (Inr \<lparr>auth_id = next_id s, auth_name = SignupRequest.name req,
                        auth_email = SignupRequest.email req\<rparr>, Some s') \<and>
              user s' = user s @ [(next_id s, u)] \<and>
              User.name u = SignupRequest.name req \<and>
              User.email u = SignupRequest.email req \<and>
              password_hash u = ''hash:'' @ SignupRequest.password req)) \<and>
   (\<forall>db r db' req2.
      signup db req = (Inr r, db') \<and> SignupRequest.email req2 = SignupRequest.email req \<longrightarrow>
      signup db' req2 = (Inl (HTTPException 400 ''Email already registered''), db')) \<and>
   kind_of (HTTPException 400 ''Email already registered'') = Some DuplicateEmail"
proof -
  have dup: "(\<exists>d\<in>set (user s). User.email (snd d) = SignupRequest.email req) \<longrightarrow>
      signup (Some s) req = (Inl (HTTPException 400 ''Email already registered''), Some s)"
    using signup_duplicate by blast
  have fresh: "(\<forall>d\<in>set (user s). User.email (snd d) \<noteq> SignupRequest.email req) \<longrightarrow>
      (\<exists>s' u. signup (Some s) req =
                 (Inr \<lparr>auth_id = next_id s, auth_name = SignupRequest.name req,
                        auth_email = SignupRequest.email req\<rparr>, Some s') \<and>
              user s' = user s @ [(next_id s, u)] \<and>
              User.name u = SignupRequest.name req \<and>
              User.email u = SignupRequest.email req \<and>
              password_hash u = ''hash:'' @ SignupRequest.password req)"
    by (simp add: signup_fresh)
  have again: "signup db' req2 = (Inl (HTTPException 400 ''Email already registered''), db')"
    if ok: "signup db req = (Inr r, db')"
      and same: "SignupRequest.email req2 = SignupRequest.email req"
    for db r db' req2
  proof -
    from ok obtain s0 where db: "db = Some s0"
      and new: "\<forall>d\<in>set (user s0). User.email (snd d) \<noteq> SignupRequest.email req"
      by (rule signup_success)
    from ok db signup_fresh [OF new] obtain s1 where db': "db' = Some s1"
      and "\<exists>d\<in>set (user s1). User.email (snd d) = SignupRequest.email req"
      by auto
    with same have "\<exists>d\<in>set (user s1). User.email (snd d) = SignupRequest.email req2"
      by simp
    then show ?thesis unfolding db' by (rule signup_duplicate)
  qed
  have kind: "kind_of (HTTPException 400 ''Email already registered'') = Some DuplicateEmail"
    by simp
  from dup fresh again kind show ?thesis by blast
qed

text \<open>
  In the example store Ann's address is taken; Bob's is not, his signup returns the next
  identifier, and a second signup with Bob's address under another name and password is
  refused.
\<close>

theorem signup_outcomes_witness:
  "signup (Some demo_store)
     \<lparr>SignupRequest.name = ''Another Ann'', SignupRequest.email = ''ann@example.in'',
      SignupRequest.password = ''other'', SignupRequest.language = None\<rparr> =
     (Inl (HTTPException 400 ''Email already registered''), Some demo_store) \<and>
   fst (signup (Some demo_store)
     \<lparr>SignupRequest.name = ''Bob'', SignupRequest.email = ''bob@example.in'',
      SignupRequest.password = ''pw'', SignupRequest.language = Some ''hi''\<rparr>) =
     Inr \<lparr>auth_id = 4, auth_name = ''Bob'', auth_email = ''bob@example.in''\<rparr> \<and>
   fst (signup
     (snd (signup (Some demo_store)
       \<lparr>SignupRequest.name = ''Bob'', SignupRequest.email = ''bob@example.in'',
        SignupRequest.password = ''pw'', SignupRequest.language = Some ''hi''\<rparr>))
     \<lparr>SignupRequest.name = ''Robert'', SignupRequest.email = ''bob@example.in'',
      SignupRequest.password = ''different'', SignupRequest.language = None\<rparr>) =
     Inl (HTTPException 400 ''Email already registered'')"
proof -
  let ?dup = "\<lparr>SignupRequest.name = ''Another Ann'', SignupRequest.email = ''ann@example.in'',
      SignupRequest.password = ''other'', SignupRequest.language = None\<rparr>"
  let ?bob = "\<lparr>SignupRequest.name = ''Bob'', SignupRequest.email = ''bob@example.in'',
      SignupRequest.password = ''pw'', SignupRequest.language = Some ''hi''\<rparr>"
  let ?rob = "\<lparr>SignupRequest.name = ''Robert'', SignupRequest.email = ''bob@example.in'',
      SignupRequest.password = ''different'', SignupRequest.language = None\<rparr>"
  have first: "signup (Some demo_store) ?dup =
      (Inl (HTTPException 400 ''Email already registered''), Some demo_store)"
    using signup_outcomes [of demo_store ?dup] by (simp add: demo_store_def ann_def)
  from signup_outcomes [of demo_store ?bob]
  have "\<exists>s'. signup (Some demo_store) ?bob =
      (Inr \<lparr>auth_id = 4, auth_name = ''Bob'', auth_email = ''bob@example.in''\<rparr>, Some s')"
    by (simp add: demo_store_def ann_def) blast
  then obtain s' where second: "signup (Some demo_store) ?bob =
      (Inr \<lparr>auth_id = 4, auth_name = ''Bob'', auth_email = ''bob@example.in''\<rparr>, Some s')"
    by blast
  from signup_outcomes [of demo_store ?bob] second
  have third: "signup (Some s') ?rob =
      (Inl (HTTPException 400 ''Email already registered''), Some s')"
    by simp
  from first second third show ?thesis by simp
qed


subsection \<open>Signup, then login\<close>

text \<open>
  Claim C4. After a successful signup with the address \<open>e\<close> and the password \<open>p\<close>,
  the stored password field is \<open>hash:\<close> followed by \<open>p\<close>, which ends with \<open>p\<close>. A
  login with \<open>e\<close> and a password \<open>p'\<close> on the store the signup left returns what the
  signup returned when the field ends with \<open>p'\<close>, so in particular for \<open>p' = p\<close>, and
  fails with the status 401, InvalidCredentials, when it does not.
\<close>

theorem signup_then_login:
  assumes "signup db req = (Inr r, db')"
  shows "login db' \<lparr>LoginRequest.email = SignupRequest.email req, LoginRequest.password = p'\<rparr> =
     (if endswith (''hash:'' @ SignupRequest.password req) p'
      then Inr r else Inl (HTTPException 401 ''Invalid credentials'')) \<and>
     endswith (''hash:'' @ SignupRequest.password req) (SignupRequest.password req)"
proof -
  from assms obtain s where db: "db = Some s"
    and new: "\<forall>d\<in>set (user s). User.email (snd d) \<noteq> SignupRequest.email req"
    by (rule signup_success)
  let ?u = "\<lparr>User.name = SignupRequest.name req,
             User.email = SignupRequest.email req,
             password_hash = ''hash:'' @ SignupRequest.password req,
             phone = None,
             User.language = SignupRequest.language req,
             User.city = None,
             is_active = True,
             role = ''user''\<rparr>"
  let ?s' = "s\<lparr>user := user s @ [(next_id s, ?u)], next_id := Suc (next_id s)\<rparr>"
  from assms db signup_fresh [OF new]
  have r: "r = \<lparr>auth_id = next_id s, auth_name = SignupRequest.name req,
                 auth_email = SignupRequest.email req\<rparr>"
    and db': "db' = Some ?s'"
    by simp_all
  from new have "find_one (\<lambda>u. User.email u = SignupRequest.email req) (user s) = None"
    by (simp add: find_one_None_iff)
  then have "find_one (\<lambda>u. User.email u = SignupRequest.email req) (user ?s') =
      Some (next_id s, ?u)"
    by (simp add: find_one_append) (simp add: find_one_def)
  then have "login (Some ?s')
       \<lparr>LoginRequest.email = SignupRequest.email req, LoginRequest.password = p'\<rparr> =
     (if endswith (''hash:'' @ SignupRequest.password req) p'
      then Inr r else Inl (HTTPException 401 ''Invalid credentials''))"
    by (simp add: login_def r)
  moreover have "endswith (''hash:'' @ SignupRequest.password req) (SignupRequest.password req)"
    by (rule endswith_append)
  ultimately show ?thesis unfolding db' by blast
qed

text \<open>
  Ann signs up on the empty store and logs in with her password; the same password with
  a capital letter is refused.
\<close>

theorem signup_then_login_witness:
  "fst (signup (Some empty_store)
     \<lparr>SignupRequest.name = ''Ann'', SignupRequest.email = ''ann@example.in'',
      SignupRequest.password = ''secret'', SignupRequest.language = Some ''en''\<rparr>) =
     Inr \<lparr>auth_id = 0, auth_name = ''Ann'', auth_email = ''ann@example.in''\<rparr> \<and>
   login (snd (signup (Some empty_store)
       \<lparr>SignupRequest.name = ''Ann'', SignupRequest.email = ''ann@example.in'',
        SignupRequest.password = ''secret'', SignupRequest.language = Some ''en''\<rparr>))
     \<lparr>LoginRequest.email = ''ann@example.in'', LoginRequest.password = ''secret''\<rparr> =
     Inr \<lparr>auth_id = 0, auth_name = ''Ann'', auth_email = ''ann@example.in''\<rparr> \<and>
   login (snd (signup (Some empty_store)
       \<lparr>SignupRequest.name = ''Ann'', SignupRequest.email = ''ann@example.in'',
        SignupRequest.password = ''secret'', SignupRequest.language = Some ''en''\<rparr>))
     \<lparr>LoginRequest.email = ''ann@example.in'', LoginRequest.password = ''Secret''\<rparr> =
     Inl (HTTPException 401 ''Invalid credentials'')"
proof -
  let ?req = "\<lparr>SignupRequest.name = ''Ann'', SignupRequest.email = ''ann@example.in'',
      SignupRequest.password = ''secret'', SignupRequest.language = Some ''en''\<rparr>"
  let ?r = "\<lparr>auth_id = 0, auth_name = ''Ann'', auth_email = ''ann@example.in''\<rparr>"
  obtain db' where ok: "signup (Some empty_store) ?req = (Inr ?r, db')"
    by (simp add: signup_def find_one_def create_document_def empty_store_def)
  from signup_then_login [OF ok, of "''secret''"] signup_then_login [OF ok, of "''Secret''"] ok
  show ?thesis by (simp add: endswith_def)
qed


subsection \<open>Matching\<close>

text \<open>
  Claim C5, as the code has it. The matching endpoint hands the language and the city of
  the request to the store as case-insensitive regular expressions, so the substring
  reading holds for a parameter without metacharacters: let the language and the city,
  where given, consist of printable ASCII characters none of which is a regular
  expression metacharacter. Then the result is the first ten, in the store's order, of the
  therapists that satisfy every constraint of a present parameter at once: some language
  contains the requested language as a case-insensitive substring, the city contains the
  requested city likewise, and some specialty is an element of the requested concerns.
  Every record of the result is such a therapist, the result never holds more than ten
  records, and a request that leaves out all three (or gives them empty) returns the
  first ten therapists unfiltered.
\<close>

theorem match_conjunctive:
  assumes "plain_param (MatchRequest.language req)" and "plain_param (MatchRequest.city req)"
  shows "\<exists>ms. match (Some s) req = Some (Inr ms) \<and>
     length ms \<le> 10 \<and>
     ms = map match_item (take 10 (filter (\<lambda>d. match_filter req (snd d)) (therapist s))) \<and>
     (\<forall>m\<in>set ms. \<exists>d\<in>set (therapist s). m = match_item d \<and> match_filter req (snd d)) \<and>
     (\<not> truthy (MatchRequest.language req) \<and> \<not> truthy (MatchRequest.city req) \<and>
      concerns req = [] \<longrightarrow> ms = map match_item (take 10 (therapist s)))"
proof -
  let ?ms = "map match_item (take 10 (filter (\<lambda>d. match_filter req (snd d)) (therapist s)))"
  have res: "match (Some s) req = Some (Inr ?ms)"
    by (rule match_plain [OF assms])
  have len: "length ?ms \<le> 10" by simp
  have only: "\<forall>m\<in>set ?ms. \<exists>d\<in>set (therapist s). m = match_item d \<and> match_filter req (snd d)"
  proof
    fix m assume "m \<in> set ?ms"
    then obtain d where d: "d \<in> set (take 10 (filter (\<lambda>d. match_filter req (snd d)) (therapist s)))"
      and m: "m = match_item d" by auto
    from d have "d \<in> set (filter (\<lambda>d. match_filter req (snd d)) (therapist s))"
      by (rule in_set_takeD)
    with m show "\<exists>d\<in>set (therapist s). m = match_item d \<and> match_filter req (snd d)"
      by auto
  qed
  have none: "\<not> truthy (MatchRequest.language req) \<and> \<not> truthy (MatchRequest.city req) \<and>
      concerns req = [] \<longrightarrow> ?ms = map match_item (take 10 (therapist s))"
    by (simp add: match_filter_def)
  from res len only none show ?thesis by blast
qed

text \<open>
  In the example store Asha speaks English but does not list the concern "couples", so
  a request for the language "eng" and the concern "couples" returns Vikram alone; a
  request with no parameter returns both, and ten of the sixty therapists of the crowded
  store.
\<close>

theorem match_conjunctive_witness:
  "plain_param (Some ''eng'') \<and> plain_param None \<and>
   match (Some demo_store)
     \<lparr>age = None, concerns = [''couples''], MatchRequest.language = Some ''eng'',
      gender_preference = None, MatchRequest.city = None\<rparr> =
     Some (Inr [match_item (2, vikram)]) \<and>
   list_ex (ci_substring ''eng'') (Therapist.languages asha) \<and>
   set (Therapist.specialties asha) \<inter> set [''couples''] = {} \<and>
   match (Some demo_store)
     \<lparr>age = None, concerns = [], MatchRequest.language = None,
      gender_preference = None, MatchRequest.city = None\<rparr> =
     Some (Inr [match_item (1, asha), match_item (2, vikram)]) \<and>
   (\<exists>ms. match (Some crowded_store)
      \<lparr>age = None, concerns = [], MatchRequest.language = None,
       gender_preference = None, MatchRequest.city = None\<rparr> = Some (Inr ms) \<and>
      length ms = 10)"
proof -
  let ?a = "\<lparr>age = None, concerns = [''couples''], MatchRequest.language = Some ''eng'',
      gender_preference = None, MatchRequest.city = None\<rparr>"
  let ?n = "\<lparr>age = None, concerns = [], MatchRequest.language = None,
      gender_preference = None, MatchRequest.city = None\<rparr>"
  have n: "plain_param None" by (simp add: plain_param_def)
  have eng: "list_ex (ci_substring ''eng'') (Therapist.languages asha)"
    by (simp add: asha_def ci_substring_def lower_def sublist_code(3))
  have nocouples: "set (Therapist.specialties asha) \<inter> set [''couples''] = {}"
    by (simp add: asha_def)
  have fa: "\<not> match_filter ?a asha"
    by (simp add: match_filter_def truthy_def asha_def)
  have fv: "match_filter ?a vikram"
    by (simp add: match_filter_def truthy_def vikram_def ci_substring_def lower_def
        sublist_code(3))
  from match_conjunctive [of ?a demo_store] plain_eng n
  obtain ms1 where "match (Some demo_store) ?a = Some (Inr ms1)"
    and "ms1 = map match_item
      (take 10 (filter (\<lambda>d. match_filter ?a (snd d)) (therapist demo_store)))"
    by auto
  then have r1: "match (Some demo_store) ?a = Some (Inr [match_item (2, vikram)])"
    by (simp add: demo_therapists fa fv)
  from match_conjunctive [of ?n demo_store] n
  obtain ms2 where "match (Some demo_store) ?n = Some (Inr ms2)"
    and "\<not> truthy (MatchRequest.language ?n) \<and> \<not> truthy (MatchRequest.city ?n) \<and>
      concerns ?n = [] \<longrightarrow> ms2 = map match_item (take 10 (therapist demo_store))"
    by auto
  then have r2: "match (Some demo_store) ?n =
      Some (Inr [match_item (1, asha), match_item (2, vikram)])"
    by (simp add: demo_therapists truthy_def)
  from match_conjunctive [of ?n crowded_store] n
  obtain ms3 where m3: "match (Some crowded_store) ?n = Some (Inr ms3)"
    and "\<not> truthy (MatchRequest.language ?n) \<and> \<not> truthy (MatchRequest.city ?n) \<and>
      concerns ?n = [] \<longrightarrow> ms3 = map match_item (take 10 (therapist crowded_store))"
    by auto
  then have "length ms3 = 10"
    by (simp add: truthy_def crowded_store_def)
  with m3 have r3: "\<exists>ms. match (Some crowded_store) ?n = Some (Inr ms) \<and> length ms = 10"
    by blast
  from plain_eng n r1 eng nocouples r2 r3 show ?thesis by blast
qed

text \<open>
  The substring reading fails for a metacharacter: the language "." is a regular
  expression that matches any language, so the request returns Vikram, whose only
  language, "English", does not contain a dot.
\<close>

theorem match_conjunctive_counterexample:
  "match (Some demo_store)
     \<lparr>age = None, concerns = [], MatchRequest.language = Some ''.'',
      gender_preference = None, MatchRequest.city = None\<rparr> =
     Some (Inr [match_item (1, asha), match_item (2, vikram)]) \<and>
   Therapist.languages vikram = [''English''] \<and>
   \<not> ci_substring ''.'' ''English''"
  by (simp add: match_def truthy_def query_supported_def pattern_supported_def
      subject_supported_def printable_def metachar_def find_limit_def
      satisfies_def regex_search_def demo_store_def asha_def vikram_def
      ci_substring_def lower_def sublist_code(3))


subsection \<open>The therapist directory\<close>

text \<open>
  Claim C6, as the code has it. The directory hands its three parameters to the store as
  case-insensitive regular expressions, so the substring reading holds for a parameter
  without metacharacters: let the language, the city and the free text, where given,
  consist of printable ASCII characters none of which is a regular expression
  metacharacter; a parameter that is absent or empty imposes nothing. Then the listing
  returns exactly the first fifty, in the store's order, of the stored therapists that
  satisfy the filters: some language contains the language parameter and the city
  contains the city parameter as a case-insensitive substring, and the name or some
  specialty contains the free text. With fifty or more matching records, sixty for one,
  exactly fifty are returned.
\<close>

theorem directory_listing:
  assumes "plain_param language'" and "plain_param city'" and "plain_param q"
  shows "\<exists>items. list_therapists (Some s) language' city' q = Some (Inr items) \<and>
     items = take 50 (filter (\<lambda>d. directory_filter language' city' q (snd d)) (therapist s)) \<and>
     length items \<le> 50 \<and>
     (50 \<le> length (filter (\<lambda>d. directory_filter language' city' q (snd d)) (therapist s)) \<longrightarrow>
        length items = 50)"
  using list_therapists_plain [OF assms, of s] by simp

text \<open>
  In the example store the city "bang" selects Asha of Bangalore and not Vikram of
  Delhi, the language "HIN" selects Asha, who speaks Hindi, and the free text selects
  Vikram Shah by his name ("shah") and Asha by a specialty ("Depress"); in the crowded
  store sixty therapists match the city and fifty are returned.
\<close>

theorem directory_listing_witness:
  "plain_param None \<and> plain_param (Some ''bang'') \<and> plain_param (Some ''HIN'') \<and>
   plain_param (Some ''shah'') \<and> plain_param (Some ''Depress'') \<and>
   list_therapists (Some demo_store) None (Some ''bang'') None = Some (Inr [(1, asha)]) \<and>
   list_therapists (Some demo_store) (Some ''HIN'') None None = Some (Inr [(1, asha)]) \<and>
   list_therapists (Some demo_store) None None (Some ''shah'') = Some (Inr [(2, vikram)]) \<and>
   list_therapists (Some demo_store) None None (Some ''Depress'') = Some (Inr [(1, asha)]) \<and>
   length (filter (\<lambda>d. directory_filter None (Some ''bang'') None (snd d))
     (therapist crowded_store)) = 60 \<and>
   (\<exists>items. list_therapists (Some crowded_store) None (Some ''bang'') None =
      Some (Inr items) \<and> length items = 50)"
proof -
  have n: "plain_param None" by (simp add: plain_param_def)
  have sixty: "length (filter (\<lambda>d. directory_filter None (Some ''bang'') None (snd d))
     (therapist crowded_store)) = 60"
    by (simp add: crowded_store_def filter_map comp_def asha_bang)
  from directory_listing [OF n plain_bang n, of demo_store]
  have city: "list_therapists (Some demo_store) None (Some ''bang'') None =
      Some (Inr [(1, asha)])"
    by (simp add: demo_therapists asha_bang vikram_bang)
  from directory_listing [OF plain_examples(1) n n, of demo_store]
  have lang: "list_therapists (Some demo_store) (Some ''HIN'') None None =
      Some (Inr [(1, asha)])"
    by (simp add: demo_therapists directory_examples)
  from directory_listing [OF n n plain_examples(2), of demo_store]
  have name: "list_therapists (Some demo_store) None None (Some ''shah'') =
      Some (Inr [(2, vikram)])"
    by (simp add: demo_therapists directory_examples)
  from directory_listing [OF n n plain_examples(3), of demo_store]
  have spec: "list_therapists (Some demo_store) None None (Some ''Depress'') =
      Some (Inr [(1, asha)])"
    by (simp add: demo_therapists directory_examples)
  from directory_listing [OF n plain_bang n, of crowded_store] sixty
  have "\<exists>items. list_therapists (Some crowded_store) None (Some ''bang'') None =
      Some (Inr items) \<and> length items = 50"
    by simp
  with n plain_bang plain_examples city lang name spec sixty show ?thesis by blast
qed

text \<open>
  The substring reading fails for a metacharacter: the city "." is a regular expression
  that matches any city, so the listing returns Vikram of Delhi, and "Delhi" does not
  contain a dot.
\<close>

theorem directory_listing_counterexample:
  "list_therapists (Some demo_store) None (Some ''.'') None =
     Some (Inr [(1, asha), (2, vikram)]) \<and>
   Therapist.city vikram = Some ''Delhi'' \<and>
   \<not> ci_substring ''.'' ''Delhi''"
  by (simp add: list_therapists_def truthy_def query_supported_def pattern_supported_def
      subject_supported_def printable_def metachar_def get_documents_def find_limit_def
      satisfies_def regex_search_def pop_id_def demo_store_def asha_def vikram_def
      ci_substring_def lower_def sublist_code(3))


subsection \<open>Creating a therapist\<close>




subsection \<open>Plans\<close>

text \<open>
  Claim C8. The plans endpoint takes no argument and reads no store: whatever the store
  holds, and also when there is none, it returns the same list of exactly three entries,
  Starter at 799, Standard at 1399 and Premium at 2199, each with the period "per week".
\<close>

theorem plans_fixed:
  "length plans = 3 \<and>
   map (\<lambda>p. (Plan.name p, price_inr p, period p)) plans =
     [(''Starter'', 799, ''per week''),
      (''Standard'', 1399, ''per week''),
      (''Premium'', 2199, ''per week'')]"
  by (simp add: plans_def)


subsection \<open>Login with the empty password\<close>

text \<open>
  Claim C9, as the code has it. For every stored user, a login with that user's e-mail
  address and the empty password succeeds, since every text ends with the empty text,
  and returns the identifier, name and address of the first stored user with that
  address. In a store where no two users share an address this is the user itself.
\<close>

theorem login_empty_password:
  "d \<in> set (user s) \<longrightarrow>
     (\<exists>pre d' post.
        user s = pre @ d' # post \<and>
        (\<forall>x\<in>set pre. User.email (snd x) \<noteq> User.email (snd d)) \<and>
        User.email (snd d') = User.email (snd d) \<and>
        login (Some s)
          \<lparr>LoginRequest.email = User.email (snd d), LoginRequest.password = []\<rparr> =
          Inr \<lparr>auth_id = fst d', auth_name = User.name (snd d'),
                auth_email = User.email (snd d')\<rparr>) \<and>
     (distinct (map (\<lambda>x. User.email (snd x)) (user s)) \<longrightarrow>
        login (Some s)
          \<lparr>LoginRequest.email = User.email (snd d), LoginRequest.password = []\<rparr> =
          Inr \<lparr>auth_id = fst d, auth_name = User.name (snd d),
                auth_email = User.email (snd d)\<rparr>)"
proof
  assume mem: "d \<in> set (user s)"
  let ?req = "\<lparr>LoginRequest.email = User.email (snd d), LoginRequest.password = []\<rparr>"
  from first_with_email [OF mem] obtain pre d' post
    where split: "user s = pre @ d' # post"
      and before: "\<forall>x\<in>set pre. User.email (snd x) \<noteq> User.email (snd d)"
      and same: "User.email (snd d') = User.email (snd d)"
    by blast
  from split have "stored_users (Some s) = pre @ d' # post" by (simp add: stored_users_def)
  from login_first [OF this, of ?req] before same
  have "login (Some s) ?req =
      Inr \<lparr>auth_id = fst d', auth_name = User.name (snd d'), auth_email = User.email (snd d')\<rparr>"
    by (simp add: endswith_empty)
  with split before same
  have first: "\<exists>pre d' post.
        user s = pre @ d' # post \<and>
        (\<forall>x\<in>set pre. User.email (snd x) \<noteq> User.email (snd d)) \<and>
        User.email (snd d') = User.email (snd d) \<and>
        login (Some s) ?req =
          Inr \<lparr>auth_id = fst d', auth_name = User.name (snd d'),
                auth_email = User.email (snd d')\<rparr>"
    by blast
  have unique: "distinct (map (\<lambda>x. User.email (snd x)) (user s)) \<longrightarrow>
        login (Some s) ?req =
          Inr \<lparr>auth_id = fst d, auth_name = User.name (snd d), auth_email = User.email (snd d)\<rparr>"
  proof
    assume dist: "distinct (map (\<lambda>x. User.email (snd x)) (user s))"
    from login_Some_present [OF mem dist, of ?req]
    show "login (Some s) ?req =
          Inr \<lparr>auth_id = fst d, auth_name = User.name (snd d), auth_email = User.email (snd d)\<rparr>"
      by (simp add: endswith_empty)
  qed
  from first unique show "(\<exists>pre d' post.
        user s = pre @ d' # post \<and>
        (\<forall>x\<in>set pre. User.email (snd x) \<noteq> User.email (snd d)) \<and>
        User.email (snd d') = User.email (snd d) \<and>
        login (Some s) ?req =
          Inr \<lparr>auth_id = fst d', auth_name = User.name (snd d'),
                auth_email = User.email (snd d')\<rparr>) \<and>
     (distinct (map (\<lambda>x. User.email (snd x)) (user s)) \<longrightarrow>
        login (Some s) ?req =
          Inr \<lparr>auth_id = fst d, auth_name = User.name (snd d),
                auth_email = User.email (snd d)\<rparr>)"
    by blast
qed

text \<open>
  In the store with two users under Ann's address, the empty password logs in for the
  second user's address; in the example store, where Ann is alone, it logs in as Ann.
\<close>

theorem login_empty_password_witness:
  "(7, ann2) \<in> set (user dup_store) \<and>
   (\<exists>d' :: User doc. login (Some dup_store)
      \<lparr>LoginRequest.email = ''ann@example.in'', LoginRequest.password = []\<rparr> =
      Inr \<lparr>auth_id = fst d', auth_name = User.name (snd d'),
            auth_email = User.email (snd d')\<rparr> \<and>
      User.email (snd d') = ''ann@example.in'') \<and>
   (0, ann) \<in> set (user demo_store) \<and>
   distinct (map (\<lambda>x. User.email (snd x)) (user demo_store)) \<and>
   login (Some demo_store) \<lparr>LoginRequest.email = ''ann@example.in'', LoginRequest.password = []\<rparr> =
     Inr \<lparr>auth_id = 0, auth_name = ''Ann'', auth_email = ''ann@example.in''\<rparr>"
proof -
  have m2: "(7, ann2) \<in> set (user dup_store)" by (simp add: dup_store_def)
  note ex = conjunct1 [OF mp [OF login_empty_password [of "(7, ann2)" dup_store] m2]]
  then obtain d' :: "User doc" where "User.email (snd d') = User.email (snd (7::nat, ann2))"
    and "login (Some dup_store)
      \<lparr>LoginRequest.email = User.email (snd (7::nat, ann2)), LoginRequest.password = []\<rparr> =
      Inr \<lparr>auth_id = fst d', auth_name = User.name (snd d'),
            auth_email = User.email (snd d')\<rparr>"
    by blast
  then have "login (Some dup_store)
      \<lparr>LoginRequest.email = ''ann@example.in'', LoginRequest.password = []\<rparr> =
      Inr \<lparr>auth_id = fst d', auth_name = User.name (snd d'),
            auth_email = User.email (snd d')\<rparr> \<and>
      User.email (snd d') = ''ann@example.in''"
    by (simp add: ann_fields)
  then have first: "\<exists>d' :: User doc. login (Some dup_store)
      \<lparr>LoginRequest.email = ''ann@example.in'', LoginRequest.password = []\<rparr> =
      Inr \<lparr>auth_id = fst d', auth_name = User.name (snd d'),
            auth_email = User.email (snd d')\<rparr> \<and>
      User.email (snd d') = ''ann@example.in''"
    by blast
  have m: "(0, ann) \<in> set (user demo_store)" by (simp add: demo_store_def)
  have d: "distinct (map (\<lambda>x. User.email (snd x)) (user demo_store))"
    by (simp add: demo_store_def)
  from conjunct2 [OF mp [OF login_empty_password [of "(0, ann)" demo_store] m], THEN mp, OF d]
  have "login (Some demo_store)
      \<lparr>LoginRequest.email = ''ann@example.in'', LoginRequest.password = []\<rparr> =
     Inr \<lparr>auth_id = 0, auth_name = ''Ann'', auth_email = ''ann@example.in''\<rparr>"
    by (simp add: ann_fields)
  with m2 first m d show ?thesis by (intro conjI)
qed

text \<open>
  With two users under one address, the login with the second user's address and the
  empty password returns the first user's identifier and name, not the second's.
\<close>

theorem login_empty_password_counterexample:
  "(7, ann2) \<in> set (user dup_store) \<and>
   login (Some dup_store)
     \<lparr>LoginRequest.email = User.email (snd (7, ann2)), LoginRequest.password = []\<rparr> =
     Inr \<lparr>auth_id = 0, auth_name = ''Ann'', auth_email = ''ann@example.in''\<rparr> \<and>
   login (Some dup_store)
     \<lparr>LoginRequest.email = User.email (snd (7, ann2)), LoginRequest.password = []\<rparr> \<noteq>
     Inr \<lparr>auth_id = fst (7, ann2), auth_name = User.name (snd (7, ann2)),
           auth_email = User.email (snd (7, ann2))\<rparr>"
  by (simp add: dup_store_def login_def find_one_def ann_fields endswith_def)


subsection \<open>The blog listing\<close>

text \<open>
  Claim C10, as the code has it. The endpoint filters only when the tag parameter is not
  empty. For a tag parameter that is not empty the blog listing returns the first
  fifty, in the store's order, of the stored posts whose list of tags has the parameter
  as an element, and nothing without a store: a post is returned only if one of its tags
  equals the parameter, character for character.
\<close>

theorem blog_tag_exact:
  assumes "tag \<noteq> []"
  shows "\<exists>items. blog_list db (Some tag) = Inr items \<and>
     items = (case db of
                None \<Rightarrow> []
              | Some s \<Rightarrow> take 50 (filter (\<lambda>d. tag \<in> set (tags (snd d))) (blogpost s))) \<and>
     (\<forall>it\<in>set items. tag \<in> set (tags (snd it)))"
proof (cases db)
  case None
  then show ?thesis by (simp add: blog_list_None)
next
  case (Some s)
  let ?items = "take 50 (filter (\<lambda>d. tag \<in> set (tags (snd d))) (blogpost s))"
  have res: "blog_list (Some s) (Some tag) = Inr ?items"
    by (rule blog_list_Some [OF assms])
  have only: "\<forall>it\<in>set ?items. tag \<in> set (tags (snd it))"
    by (auto dest: in_set_takeD)
  show ?thesis
    unfolding Some option.case using res only by blast
qed

text \<open>
  The example post is tagged "Anxiety". The tag "Anxiety" returns it; the tags "anxiety"
  and "Anx" return nothing, although the post's tag contains both as case-insensitive
  substrings, which is the test the directory's filters make.
\<close>

theorem blog_tag_exact_witness:
  "''Anxiety'' \<noteq> [] \<and> ''anxiety'' \<noteq> [] \<and> ''Anx'' \<noteq> [] \<and>
   blog_list (Some demo_store) (Some ''Anxiety'') = Inr [(3, coping)] \<and>
   blog_list (Some demo_store) (Some ''anxiety'') = Inr [] \<and>
   blog_list (Some demo_store) (Some ''Anx'') = Inr [] \<and>
   tags coping = [''Anxiety''] \<and>
   ci_substring ''anxiety'' ''Anxiety'' \<and> ci_substring ''Anx'' ''Anxiety''"
proof -
  have a: "''Anxiety'' \<noteq> []" and b: "''anxiety'' \<noteq> []" and c: "''Anx'' \<noteq> []"
    by simp_all
  have sub: "ci_substring ''anxiety'' ''Anxiety'' \<and> ci_substring ''Anx'' ''Anxiety''"
    by (simp add: ci_substring_def lower_def sublist_code(3))
  from blog_tag_exact [OF a, of "Some demo_store"]
  have r1: "blog_list (Some demo_store) (Some ''Anxiety'') = Inr [(3, coping)]"
    by (simp add: demo_posts coping_tags)
  from blog_tag_exact [OF b, of "Some demo_store"]
  have r2: "blog_list (Some demo_store) (Some ''anxiety'') = Inr []"
    by (simp add: demo_posts coping_tags)
  from blog_tag_exact [OF c, of "Some demo_store"]
  have r3: "blog_list (Some demo_store) (Some ''Anx'') = Inr []"
    by (simp add: demo_posts coping_tags)
  from a b c r1 r2 r3 sub coping_tags show ?thesis by blast
qed

text \<open>
  For the empty tag the endpoint builds no filter: the listing returns the example post,
  none of whose tags is the empty text.
\<close>

theorem blog_tag_exact_counterexample:
  "blog_list (Some demo_store) (Some []) = Inr [(3, coping)] \<and>
   [] \<notin> set (tags coping)"
  by (simp add: blog_list_def truthy_def get_documents_def find_limit_def pop_id_def
      demo_posts coping_tags)


end
